theory Spec2Isabelle
  imports Complex_Main
begin

section \<open>Numbers\<close>

text \<open>
  A JavaScript number is an IEEE-754 double. The model keeps the special values and
  idealises the finite ones: a finite number is an exact real, so rounding and
  overflow of finite arithmetic are outside the model, and there is one zero (no
  \<open>-0\<close>). Every statement below about finite arithmetic is a statement about this
  idealisation; the special values \<open>Infinity\<close>, \<open>-Infinity\<close> and \<open>NaN\<close> follow IEEE-754.
\<close>

datatype number = Num real | Infinity | NegInfinity | NaN

fun js_neg :: "number \<Rightarrow> number" where
  "js_neg (Num x) = Num (- x)"
| "js_neg Infinity = NegInfinity"
| "js_neg NegInfinity = Infinity"
| "js_neg NaN = NaN"

fun js_add :: "number \<Rightarrow> number \<Rightarrow> number" where
  "js_add NaN _ = NaN"
| "js_add _ NaN = NaN"
| "js_add Infinity NegInfinity = NaN"
| "js_add NegInfinity Infinity = NaN"
| "js_add Infinity _ = Infinity"
| "js_add _ Infinity = Infinity"
| "js_add NegInfinity _ = NegInfinity"
| "js_add _ NegInfinity = NegInfinity"
| "js_add (Num x) (Num y) = Num (x + y)"

definition js_sub :: "number \<Rightarrow> number \<Rightarrow> number" where
  "js_sub a b = js_add a (js_neg b)"

text \<open>The sign of a number that is not \<open>NaN\<close>: \<open>-1\<close>, \<open>0\<close> or \<open>1\<close>.\<close>

fun sign :: "number \<Rightarrow> int" where
  "sign (Num x) = (if x < 0 then - 1 else if x = 0 then 0 else 1)"
| "sign Infinity = 1"
| "sign NegInfinity = - 1"
| "sign NaN = 0"

definition signed_infinity :: "int \<Rightarrow> number" where
  "signed_infinity s = (if s < 0 then NegInfinity else if s = 0 then NaN else Infinity)"

fun js_mul :: "number \<Rightarrow> number \<Rightarrow> number" where
  "js_mul NaN _ = NaN"
| "js_mul _ NaN = NaN"
| "js_mul (Num x) (Num y) = Num (x * y)"
| "js_mul a b = signed_infinity (sign a * sign b)"

text \<open>
  Division: a finite quotient is exact; a non-zero number over zero is an infinity
  with the sign of the dividend (the zero of the model is \<open>+0\<close>); zero over zero and
  infinity over infinity are \<open>NaN\<close>; a finite number over an infinity is zero.
\<close>

fun js_div :: "number \<Rightarrow> number \<Rightarrow> number" where
  "js_div NaN _ = NaN"
| "js_div _ NaN = NaN"
| "js_div (Num x) (Num y) = (if y = 0 then signed_infinity (sign (Num x)) else Num (x / y))"
| "js_div (Num x) _ = Num 0"
| "js_div a (Num y) = signed_infinity (sign a * (if y < 0 then - 1 else 1))"
| "js_div _ _ = NaN"

text \<open>The comparisons \<open><\<close>, \<open>>\<close> and \<open>===\<close> on numbers: each is false when an operand is \<open>NaN\<close>.\<close>

fun js_lt :: "number \<Rightarrow> number \<Rightarrow> bool" where
  "js_lt NaN _ = False"
| "js_lt _ NaN = False"
| "js_lt (Num x) (Num y) = (x < y)"
| "js_lt NegInfinity b = (b \<noteq> NegInfinity)"
| "js_lt a Infinity = (a \<noteq> Infinity)"
| "js_lt _ _ = False"

definition js_gt :: "number \<Rightarrow> number \<Rightarrow> bool" where
  "js_gt a b = js_lt b a"

definition js_eq :: "number \<Rightarrow> number \<Rightarrow> bool" where
  "js_eq a b = (a \<noteq> NaN \<and> a = b)"

fun Math_abs :: "number \<Rightarrow> number" where
  "Math_abs (Num x) = Num \<bar>x\<bar>"
| "Math_abs NaN = NaN"
| "Math_abs _ = Infinity"

fun Math_ceil :: "number \<Rightarrow> number" where
  "Math_ceil (Num x) = Num (of_int \<lceil>x\<rceil>)"
| "Math_ceil a = a"

fun Math_sqrt :: "number \<Rightarrow> number" where
  "Math_sqrt (Num x) = (if x < 0 then NaN else Num (sqrt x))"
| "Math_sqrt Infinity = Infinity"
| "Math_sqrt _ = NaN"

fun Math_acos :: "number \<Rightarrow> number" where
  "Math_acos (Num x) = (if - 1 \<le> x \<and> x \<le> 1 then Num (arccos x) else NaN)"
| "Math_acos _ = NaN"

section \<open>Typed arrays\<close>

text \<open>
  \<open>this.type\<close> is a typed-array constructor. A value read from a typed array is a
  number, or \<open>undefined\<close> (\<open>None\<close>) when the index is out of range; a write out of range
  is ignored; a write in range converts the number to the element type.
\<close>

datatype elem_type =
    Float64Array | Float32Array
  | Int8Array | Uint8Array | Uint8ClampedArray
  | Int16Array | Uint16Array | Int32Array | Uint32Array

text \<open>\<open>ToInt32\<close>, \<open>ToUint8\<close> and their siblings: truncate towards zero, then wrap.\<close>

definition trunc :: "real \<Rightarrow> int" where
  "trunc x = (if x < 0 then \<lceil>x\<rceil> else \<lfloor>x\<rfloor>)"

definition wrap_unsigned :: "nat \<Rightarrow> int \<Rightarrow> int" where
  "wrap_unsigned bits z = z mod 2 ^ bits"

definition wrap_signed :: "nat \<Rightarrow> int \<Rightarrow> int" where
  "wrap_signed bits z =
     (let u = z mod 2 ^ bits in if u < 2 ^ (bits - 1) then u else u - 2 ^ bits)"

fun to_integer :: "(int \<Rightarrow> int) \<Rightarrow> number \<Rightarrow> number" where
  "to_integer wrap (Num x) = Num (of_int (wrap (trunc x)))"
| "to_integer wrap _ = Num 0"

text \<open>\<open>ToUint8Clamp\<close>: clamp to \<open>[0, 255]\<close> and round, ties to the even neighbour.\<close>

fun to_uint8_clamp :: "number \<Rightarrow> number" where
  "to_uint8_clamp NaN = Num 0"
| "to_uint8_clamp Infinity = Num 255"
| "to_uint8_clamp NegInfinity = Num 0"
| "to_uint8_clamp (Num x) =
     (if x \<le> 0 then Num 0 else if 255 \<le> x then Num 255
      else let f = \<lfloor>x\<rfloor> in
        if of_int f + 1 / 2 < x then Num (of_int (f + 1))
        else if x < of_int f + 1 / 2 then Num (of_int f)
        else if even f then Num (of_int f) else Num (of_int (f + 1)))"

text \<open>
  The conversion a store into a typed array applies. A \<open>Float64Array\<close> keeps the
  number; so does a \<open>Float32Array\<close> in this model, whose finite numbers are exact.
\<close>

fun convert :: "elem_type \<Rightarrow> number \<Rightarrow> number" where
  "convert Float64Array v = v"
| "convert Float32Array v = v"
| "convert Int8Array v = to_integer (wrap_signed 8) v"
| "convert Uint8Array v = to_integer (wrap_unsigned 8) v"
| "convert Uint8ClampedArray v = to_uint8_clamp v"
| "convert Int16Array v = to_integer (wrap_signed 16) v"
| "convert Uint16Array v = to_integer (wrap_unsigned 16) v"
| "convert Int32Array v = to_integer (wrap_signed 32) v"
| "convert Uint32Array v = to_integer (wrap_unsigned 32) v"

datatype TypedArray = TypedArray (constructor: elem_type) (elements: "number list")

text \<open>\<open>new type(n)\<close>: \<open>n\<close> zeros. \<open>new type(values)\<close>: the values, converted.\<close>

definition new_array :: "elem_type \<Rightarrow> nat \<Rightarrow> TypedArray" where
  "new_array t n = TypedArray t (replicate n (Num 0))"

definition array_from :: "elem_type \<Rightarrow> number list \<Rightarrow> TypedArray" where
  "array_from t vs = TypedArray t (map (convert t) vs)"

text \<open>\<open>a[i]\<close> as a value, \<open>a[i]\<close> read as a number, and \<open>a[i] = v\<close>.\<close>

fun get_index :: "TypedArray \<Rightarrow> nat \<Rightarrow> number option" where
  "get_index (TypedArray t xs) i = (if i < length xs then Some (xs ! i) else None)"

fun ToNumber :: "number option \<Rightarrow> number" where
  "ToNumber None = NaN"
| "ToNumber (Some x) = x"

fun set_index :: "TypedArray \<Rightarrow> nat \<Rightarrow> number \<Rightarrow> TypedArray" where
  "set_index (TypedArray t xs) i v = TypedArray t (xs[i := convert t v])"

text \<open>\<open>a[i] === b[i]\<close>: two \<open>undefined\<close> are equal, two numbers as \<open>js_eq\<close> says.\<close>

fun strict_equals :: "number option \<Rightarrow> number option \<Rightarrow> bool" where
  "strict_equals None None = True"
| "strict_equals (Some x) (Some y) = js_eq x y"
| "strict_equals _ _ = False"

section \<open>Errors and loops\<close>

text \<open>
  Every \<open>throw new Error(message)\<close> of the source is \<open>Error message\<close>. \<open>TypeError\<close> is
  what reading a property of \<open>undefined\<close> throws, \<open>RangeError\<close> what a typed array of
  an invalid length throws. A method that can throw returns \<open>error + 'a\<close>.
\<close>

datatype error = Error string | TypeError | RangeError

fun and_then :: "error + 'a \<Rightarrow> ('a \<Rightarrow> error + 'b) \<Rightarrow> error + 'b" where
  "and_then (Inl e) f = Inl e"
| "and_then (Inr x) f = f x"

text \<open>
  \<open>for (i = ...) body\<close> over the indices \<open>is\<close> in their order: the state is threaded
  through the iterations, and the first throw ends the loop.
\<close>

fun for_each :: "nat list \<Rightarrow> (nat \<Rightarrow> 's \<Rightarrow> error + 's) \<Rightarrow> 's \<Rightarrow> error + 's" where
  "for_each [] body s = Inr s"
| "for_each (i # is) body s = and_then (body i s) (for_each is body)"

text \<open>\<open>a[i]\<close> and \<open>a[i] = v\<close> where \<open>a\<close> is \<open>this.data\<close>, which may be \<open>undefined\<close>.\<close>

definition index :: "TypedArray option \<Rightarrow> nat \<Rightarrow> error + number option" where
  "index a i = (case a of None \<Rightarrow> Inl TypeError | Some ta \<Rightarrow> Inr (get_index ta i))"

definition assign :: "TypedArray option \<Rightarrow> nat \<Rightarrow> number \<Rightarrow> error + TypedArray option" where
  "assign a i v = (case a of None \<Rightarrow> Inl TypeError | Some ta \<Rightarrow> Inr (Some (set_index ta i v)))"

section \<open>The native kernels\<close>

text \<open>
  \<open>nblas\<close> is a native module outside the repository. The methods take it as a
  parameter \<open>K\<close>: a kernel is any function of the arguments the call site passes.
  It may throw. A kernel that writes (\<open>axpy\<close> into \<open>y\<close>, \<open>scal\<close> into \<open>x\<close>) returns the
  new elements of the array it writes, and writes nothing else.
\<close>

type_synonym axpy_kernel =
  "nat \<Rightarrow> number \<Rightarrow> TypedArray option \<Rightarrow> nat \<Rightarrow> TypedArray option \<Rightarrow> nat \<Rightarrow> error + number list"
type_synonym scal_kernel =
  "nat \<Rightarrow> number \<Rightarrow> TypedArray option \<Rightarrow> nat \<Rightarrow> error + number list"
type_synonym dot_kernel =
  "nat \<Rightarrow> TypedArray option \<Rightarrow> nat \<Rightarrow> TypedArray option \<Rightarrow> nat \<Rightarrow> error + number"
type_synonym nrm2_kernel =
  "nat \<Rightarrow> TypedArray option \<Rightarrow> nat \<Rightarrow> error + number"
type_synonym amax_kernel =
  "nat \<Rightarrow> TypedArray option \<Rightarrow> nat \<Rightarrow> error + nat"

record nblas =
  daxpy :: axpy_kernel
  saxpy :: axpy_kernel
  dscal :: scal_kernel
  sscal :: scal_kernel
  ddot :: dot_kernel
  sdot :: dot_kernel
  dnrm2 :: nrm2_kernel
  snrm2 :: nrm2_kernel
  idamax :: amax_kernel
  isamax :: amax_kernel

fun overwrite :: "TypedArray option \<Rightarrow> number list \<Rightarrow> TypedArray option" where
  "overwrite None ys = None"
| "overwrite (Some (TypedArray t xs)) ys = Some (TypedArray t ys)"

section \<open>Vector\<close>

record vector =
  type :: elem_type
  length_v :: nat
  data :: "TypedArray option"

text \<open>
  A mutating method returns \<open>this\<close>; the model returns the new state of \<open>this\<close>.
\<close>

definition written :: "vector \<Rightarrow> error + number list \<Rightarrow> error + vector" where
  "written this r = and_then r (\<lambda>ys. Inr (this\<lparr>data := overwrite (data this) ys\<rparr>))"

subsection \<open>combine and the constructor\<close>

definition combine_buffer :: "vector \<Rightarrow> vector \<Rightarrow> error + TypedArray" where
  "combine_buffer this vector =
     (let l1 = length_v this; l2 = length_v vector;
          r = new_array (type this) (l1 + l2)
      in and_then
           (for_each [0..<l1]
              (\<lambda>i r. and_then (index (data this) i) (\<lambda>v. Inr (set_index r i (ToNumber v)))) r)
           (for_each [0..<l2]
              (\<lambda>j r. and_then (index (data vector) j)
                 (\<lambda>v. Inr (set_index r (l1 + j) (ToNumber v))))))"

definition combine :: "vector \<Rightarrow> vector \<Rightarrow> error + vector" where
  "combine this vector =
     and_then (combine_buffer this vector)
       (\<lambda>r. Inr (this\<lparr>data := Some r, length_v := length_v this + length_v vector\<rparr>))"

text \<open>What \<open>new Vector(data)\<close> is given: nothing, a \<open>Vector\<close>, an \<open>Array\<close> or a typed array.\<close>

datatype argument =
  NoArgument | AVector vector | AnArray "number list" | ATypedArray TypedArray

definition new_Vector :: "argument \<Rightarrow> error + vector" where
  "new_Vector arg =
     (let this = \<lparr>type = Float64Array, length_v = 0, data = None\<rparr>
      in case arg of
           AVector v \<Rightarrow> combine this v
         | AnArray xs \<Rightarrow>
             Inr (this\<lparr>data := Some (array_from (type this) xs), length_v := length xs\<rparr>)
         | ATypedArray ta \<Rightarrow>
             Inr (this\<lparr>data := Some ta, length_v := length (elements ta),
                        type := constructor ta\<rparr>)
         | NoArgument \<Rightarrow> Inr this)"

subsection \<open>add, subtract, scale\<close>

definition add :: "nblas \<Rightarrow> vector \<Rightarrow> vector \<Rightarrow> error + vector" where
  "add K this vector =
     (if length_v this \<noteq> length_v vector then Inl (Error ''sizes do not match!'')
      else if length_v this = 0 \<and> length_v vector = 0 then Inr this
      else if type this = Float64Array then
        written this (daxpy K (length_v this) (Num 1) (data vector) 1 (data this) 1)
      else if type this = Float32Array then
        written this (saxpy K (length_v this) (Num 1) (data vector) 1 (data this) 1)
      else
        for_each [0..<length_v this]
          (\<lambda>i this. and_then (index (data this) i) (\<lambda>y. and_then (index (data vector) i)
             (\<lambda>x. and_then (assign (data this) i (js_add (ToNumber y) (ToNumber x)))
                (\<lambda>d. Inr (this\<lparr>data := d\<rparr>))))) this)"

definition subtract :: "nblas \<Rightarrow> vector \<Rightarrow> vector \<Rightarrow> error + vector" where
  "subtract K this vector =
     (if length_v this \<noteq> length_v vector then Inl (Error ''sizes do not match'')
      else if length_v this = 0 \<and> length_v vector = 0 then Inr this
      else if type this = Float64Array then
        written this (daxpy K (length_v this) (Num (- 1)) (data vector) 1 (data this) 1)
      else if type this = Float32Array then
        written this (saxpy K (length_v this) (Num (- 1)) (data vector) 1 (data this) 1)
      else
        for_each [0..<length_v this]
          (\<lambda>i this. and_then (index (data this) i) (\<lambda>y. and_then (index (data vector) i)
             (\<lambda>x. and_then (assign (data this) i (js_add (ToNumber y) (ToNumber x)))
                (\<lambda>d. Inr (this\<lparr>data := d\<rparr>))))) this)"

definition scale :: "nblas \<Rightarrow> vector \<Rightarrow> number \<Rightarrow> error + vector" where
  "scale K this scalar =
     (if type this = Float64Array then
        written this (dscal K (length_v this) scalar (data this) 1)
      else if type this = Float32Array then
        written this (sscal K (length_v this) scalar (data this) 1)
      else
        for_each (rev [0..<length_v this])
          (\<lambda>i this. and_then (index (data this) i)
             (\<lambda>v. and_then (assign (data this) i (js_mul (ToNumber v) scalar))
                (\<lambda>d. Inr (this\<lparr>data := d\<rparr>)))) this)"

subsection \<open>dot, magnitude, angle, project\<close>

definition dot :: "nblas \<Rightarrow> vector \<Rightarrow> vector \<Rightarrow> error + number" where
  "dot K this vector =
     (if length_v this \<noteq> length_v vector then Inl (Error ''sizes do not match'')
      else
        let a = data this; b = data vector
        in if type this = Float64Array then ddot K (length_v this) a 1 b 1
           else if type this = Float32Array then sdot K (length_v this) a 1 b 1
           else
             for_each [0..<length_v this]
               (\<lambda>i result. and_then (index a i) (\<lambda>x. and_then (index b i)
                  (\<lambda>y. Inr (js_add result (js_mul (ToNumber x) (ToNumber y)))))) (Num 0))"

definition magnitude :: "nblas \<Rightarrow> vector \<Rightarrow> error + number" where
  "magnitude K this =
     (if length_v this = 0 then Inr (Num 0)
      else if type this = Float64Array then dnrm2 K (length_v this) (data this) 1
      else if type this = Float32Array then snrm2 K (length_v this) (data this) 1
      else
        let values = data this
        in and_then
             (for_each [0..<length_v this]
                (\<lambda>i result. and_then (index values i)
                   (\<lambda>v. Inr (js_add result (js_mul (ToNumber v) (ToNumber v))))) (Num 0))
             (\<lambda>result. Inr (Math_sqrt result)))"

definition angle :: "nblas \<Rightarrow> vector \<Rightarrow> vector \<Rightarrow> error + number" where
  "angle K this vector =
     and_then (dot K this vector) (\<lambda>d. and_then (magnitude K this)
       (\<lambda>m. and_then (magnitude K vector)
          (\<lambda>n. Inr (Math_acos (js_mul (js_div d m) n)))))"

text \<open>\<open>project\<close> scales its argument and returns it: the result is the new state of \<open>vector\<close>.\<close>

definition project :: "nblas \<Rightarrow> vector \<Rightarrow> vector \<Rightarrow> error + vector" where
  "project K this vector =
     and_then (dot K this vector) (\<lambda>p. and_then (dot K vector vector)
       (\<lambda>q. scale K vector (js_div p q)))"

definition Vector_project :: "nblas \<Rightarrow> vector \<Rightarrow> vector \<Rightarrow> error + vector" where
  "Vector_project K a b = and_then (new_Vector (AVector b)) (project K a)"

subsection \<open>equals, min, max\<close>

function equals_loop :: "TypedArray option \<Rightarrow> TypedArray option \<Rightarrow> nat \<Rightarrow> nat \<Rightarrow> error + nat" where
  "equals_loop a b i l =
     (if i < l then
        (case index a i of
           Inl e \<Rightarrow> Inl e
         | Inr x \<Rightarrow>
             (case index b i of
                Inl e \<Rightarrow> Inl e
              | Inr y \<Rightarrow> if strict_equals x y then equals_loop a b (Suc i) l else Inr i))
      else Inr i)"
  by pat_completeness auto
termination
  by (relation "measure (\<lambda>(a, b, i, l). l - i)") auto

declare equals_loop.simps [simp del]

definition equals :: "vector \<Rightarrow> vector \<Rightarrow> error + bool" where
  "equals this vector =
     (if length_v this \<noteq> length_v vector then Inr False
      else and_then (equals_loop (data this) (data vector) 0 (length_v this))
             (\<lambda>i. Inr (i = length_v this)))"

text \<open>\<open>min\<close> runs to \<open>values.length\<close>, the length of the typed array; \<open>max\<close> to \<open>this.length\<close>.\<close>

definition min_v :: "vector \<Rightarrow> error + number" where
  "min_v this =
     (case data this of
        None \<Rightarrow> Inl TypeError
      | Some values \<Rightarrow>
          for_each [0..<length (elements values)]
            (\<lambda>i m. let value = ToNumber (get_index values i)
                    in Inr (if js_lt value m then value else m)) Infinity)"

definition max_v :: "nblas \<Rightarrow> vector \<Rightarrow> error + number option" where
  "max_v K this =
     (if type this = Float64Array then
        and_then (idamax K (length_v this) (data this) 1) (index (data this))
      else if type this = Float32Array then
        and_then (isamax K (length_v this) (data this) 1) (index (data this))
      else
        let values = data this
        in and_then
             (for_each [0..<length_v this]
                (\<lambda>i m. and_then (index values i)
                   (\<lambda>value. Inr (if js_gt (ToNumber value) m then ToNumber value else m)))
                NegInfinity)
             (\<lambda>m. Inr (Some m)))"

subsection \<open>zeros and range\<close>

text \<open>
  \<open>new type(count)\<close> for a number \<open>count\<close>, as ECMAScript 2017 and later read a
  length (\<open>ToIndex\<close>): \<open>NaN\<close> gives the empty array, a fraction is truncated, and a
  length that is negative, infinite or above \<open>2^53 - 1\<close> throws a \<open>RangeError\<close>. (An
  engine throws the same error far below that bound, when it cannot allocate; lists
  have no such limit.) \<open>fill\<close> stores one value everywhere; the loop \<open>zeros\<close> runs
  where the array has no \<open>fill\<close> stores the same.
\<close>

fun allocate :: "elem_type \<Rightarrow> number \<Rightarrow> error + TypedArray" where
  "allocate t NaN = Inr (new_array t 0)"
| "allocate t (Num x) =
     (if trunc x < 0 \<or> 2 ^ 53 - 1 < trunc x then Inl RangeError
      else Inr (new_array t (nat (trunc x))))"
| "allocate t _ = Inl RangeError"

fun fill :: "TypedArray \<Rightarrow> number \<Rightarrow> TypedArray" where
  "fill (TypedArray t xs) v = TypedArray t (map (\<lambda>_. convert t v) xs)"

definition zeros :: "number \<Rightarrow> elem_type option \<Rightarrow> error + vector" where
  "zeros count type' =
     (if js_lt count (Num 0) then Inl (Error ''invalid size'')
      else if js_eq count (Num 0) then new_Vector NoArgument
      else
        let t = (case type' of Some t \<Rightarrow> t | None \<Rightarrow> Float64Array)
        in and_then (allocate t count) (\<lambda>data. new_Vector (ATypedArray (fill data (Num 0)))))"

text \<open>
  The loop of \<open>range\<close>: \<open>for (i = start, j = 0; i < end; i += step, j++)\<close>. Nothing
  bounds it when \<open>step\<close> is not positive, so it is a partial function: \<open>None\<close> is a
  loop that never ends. Its numbers are exact. With doubles the count
  \<open>Math.ceil((end - start) / step)\<close> and the number of iterations can differ
  (\<open>range(0, 0.3, 0.9)\<close> has three elements, not four), and \<open>i += step\<close> can leave a
  large \<open>i\<close> as it is. The calls evaluated below are on small whole numbers, which a
  double holds exactly; the other statements about \<open>range\<close> say which branch a call
  takes, whatever the arithmetic.
\<close>

partial_function (option) range_loop ::
  "vector \<Rightarrow> number \<Rightarrow> nat \<Rightarrow> number \<Rightarrow> number \<Rightarrow> number \<Rightarrow> bool \<Rightarrow> (error + vector) option" where
  "range_loop vector i j start step end' backwards =
     (if js_lt i end' then
        (case assign (data vector) j
                (if backwards then js_add (js_sub end' i) start else i) of
           Inl e \<Rightarrow> Some (Inl e)
         | Inr d \<Rightarrow>
             range_loop (vector\<lparr>data := d\<rparr>) (js_add i step) (Suc j) start step end' backwards)
      else Some (Inr vector))"

declare range_loop.simps [code]

text \<open>
  \<open>range\<close> reads \<open>arguments\<close>: the numbers \<open>args\<close>, and after them the optional
  typed-array constructor \<open>type'\<close>, which the source pops off first.
\<close>

definition range_from ::
  "number \<Rightarrow> number \<Rightarrow> number \<Rightarrow> elem_type \<Rightarrow> (error + vector) option" where
  "range_from start0 step end0 t =
     (let backwards = js_lt (js_sub end0 start0) (Num 0);
          end' = (if backwards then start0 else end0);
          start = (if backwards then end0 else start0)
      in if js_gt step (js_sub end' start) then Some (Inl (Error ''invalid range''))
         else
           (case zeros (Math_ceil (js_div (js_sub end' start) step)) (Some t) of
              Inl e \<Rightarrow> Some (Inl e)
            | Inr vector \<Rightarrow> range_loop vector start 0 start step end' backwards))"

definition range_v :: "number list \<Rightarrow> elem_type option \<Rightarrow> (error + vector) option" where
  "range_v args type' =
     (let t = (case type' of Some t \<Rightarrow> t | None \<Rightarrow> Float64Array)
      in case args of
           [start, end'] \<Rightarrow> range_from start (Num 1) end' t
         | [start, step, end'] \<Rightarrow> range_from start step end' t
         | _ \<Rightarrow> Some (Inl (Error ''invalid range'')))"

section \<open>Vectors as objects\<close>

text \<open>
  Where identity matters, a \<open>Vector\<close> and a typed array are objects in a store, named
  by their addresses. A \<open>Vector\<close> object holds the address of its typed array; two
  objects may hold the same one (\<open>new Vector(typedArray)\<close> does not copy). An address
  that names nothing reads as \<open>undefined\<close>.
\<close>

type_synonym ref = nat

record object =
  type_of :: elem_type
  length_of :: nat
  data_of :: "ref option"

record store =
  vectors :: "object list"
  arrays :: "TypedArray list"

definition lookup :: "'a list \<Rightarrow> ref \<Rightarrow> 'a option" where
  "lookup xs r = (if r < length xs then Some (xs ! r) else None)"

text \<open>The \<open>Vector\<close> at an address, with its typed array in the place of the address.\<close>

definition view :: "store \<Rightarrow> ref \<Rightarrow> error + vector" where
  "view s r =
     (case lookup (vectors s) r of
        None \<Rightarrow> Inl TypeError
      | Some v \<Rightarrow>
          Inr \<lparr>type = type_of v, length_v = length_of v,
               data = Option.bind (data_of v) (lookup (arrays s))\<rparr>)"

text \<open>
  \<open>combine\<close> allocates the array \<open>r\<close> and stores its address in \<open>this.data\<close>. The
  constructor, given a \<open>Vector\<close>, allocates the object \<open>this\<close> and combines.
\<close>

definition combine_at :: "store \<Rightarrow> ref \<Rightarrow> ref \<Rightarrow> error + store" where
  "combine_at s this vector =
     and_then (view s this) (\<lambda>a. and_then (view s vector) (\<lambda>b.
       and_then (combine_buffer a b) (\<lambda>r.
         Inr (s\<lparr>arrays := arrays s @ [r],
                 vectors := (vectors s)
                   [this := \<lparr>type_of = type a, length_of = length_v a + length_v b,
                             data_of = Some (length (arrays s))\<rparr>]\<rparr>))))"

definition new_Vector_at :: "store \<Rightarrow> ref \<Rightarrow> error + store \<times> ref" where
  "new_Vector_at s v =
     (let this = length (vectors s);
          s' = s\<lparr>vectors := vectors s @
                 [\<lparr>type_of = Float64Array, length_of = 0, data_of = None\<rparr>]\<rparr>
      in and_then (combine_at s' this v) (\<lambda>s''. Inr (s'', this)))"

text \<open>\<open>scale\<close> writes into the typed array \<open>this.data\<close> names, in place.\<close>

definition write_back :: "store \<Rightarrow> ref \<Rightarrow> vector \<Rightarrow> store" where
  "write_back s this v =
     (case (Option.bind (lookup (vectors s) this) data_of, data v) of
        (Some p, Some ta) \<Rightarrow> s\<lparr>arrays := (arrays s)[p := ta]\<rparr>
      | _ \<Rightarrow> s)"

definition scale_at :: "nblas \<Rightarrow> store \<Rightarrow> ref \<Rightarrow> number \<Rightarrow> error + store" where
  "scale_at K s this scalar =
     and_then (view s this) (\<lambda>a. and_then (scale K a scalar)
       (\<lambda>a'. Inr (write_back s this a')))"

definition dot_at :: "nblas \<Rightarrow> store \<Rightarrow> ref \<Rightarrow> ref \<Rightarrow> error + number" where
  "dot_at K s this vector =
     and_then (view s this) (\<lambda>a. and_then (view s vector) (dot K a))"

definition project_at :: "nblas \<Rightarrow> store \<Rightarrow> ref \<Rightarrow> ref \<Rightarrow> error + store \<times> ref" where
  "project_at K s this vector =
     and_then (dot_at K s this vector) (\<lambda>p. and_then (dot_at K s vector vector)
       (\<lambda>q. and_then (scale_at K s vector (js_div p q)) (\<lambda>s'. Inr (s', vector))))"

definition Vector_project_at :: "nblas \<Rightarrow> store \<Rightarrow> ref \<Rightarrow> ref \<Rightarrow> error + store \<times> ref" where
  "Vector_project_at K s a b =
     and_then (new_Vector_at s b) (\<lambda>(s', c). project_at K s' a c)"

section \<open>Reference kernels\<close>

text \<open>
  Modelled from the spec: the kernels of \<open>nblas\<close>, which is not part of the
  repository. Section 4.2 of the spec gives what each computes: \<open>axpy(n, alpha, x, y)\<close>
  is \<open>y[i] += alpha*x[i]\<close>, \<open>dot(n, x, y)\<close> the sum of the pairwise products,
  \<open>scal(n, alpha, x)\<close> is \<open>x[i] *= alpha\<close>, \<open>nrm2(n, x)\<close> the square root of the sum of
  the squares, \<open>amax(n, x)\<close> the index of the element of greatest magnitude, the lowest
  such index. They take the increments the call sites pass (always 1) and do not use
  them. They instantiate the parameter \<open>K\<close> where a statement needs a concrete one.
\<close>

definition read :: "number list \<Rightarrow> nat \<Rightarrow> number" where
  "read xs i = (if i < length xs then xs ! i else NaN)"

definition ref_axpy :: axpy_kernel where
  "ref_axpy n alpha x incx y incy =
     (case (x, y) of
        (Some xa, Some ya) \<Rightarrow>
          Inr (fold (\<lambda>i ys. ys[i := js_add (read ys i) (js_mul alpha (read (elements xa) i))])
                 [0..<n] (elements ya))
      | _ \<Rightarrow> Inl TypeError)"

definition ref_scal :: scal_kernel where
  "ref_scal n alpha x incx =
     (case x of
        Some xa \<Rightarrow> Inr (fold (\<lambda>i xs. xs[i := js_mul (read xs i) alpha]) [0..<n] (elements xa))
      | None \<Rightarrow> Inl TypeError)"

definition ref_dot :: dot_kernel where
  "ref_dot n x incx y incy =
     (case (x, y) of
        (Some xa, Some ya) \<Rightarrow>
          Inr (fold (\<lambda>i r. js_add r (js_mul (read (elements xa) i) (read (elements ya) i)))
                 [0..<n] (Num 0))
      | _ \<Rightarrow> Inl TypeError)"

definition ref_nrm2 :: nrm2_kernel where
  "ref_nrm2 n x incx =
     (case x of
        Some xa \<Rightarrow>
          Inr (Math_sqrt (fold (\<lambda>i r. js_add r (js_mul (read (elements xa) i) (read (elements xa) i)))
                 [0..<n] (Num 0)))
      | None \<Rightarrow> Inl TypeError)"

definition ref_amax :: amax_kernel where
  "ref_amax n x incx =
     (case x of
        Some xa \<Rightarrow>
          Inr (fold (\<lambda>i k. if js_gt (Math_abs (read (elements xa) i)) (Math_abs (read (elements xa) k))
                            then i else k) [0..<n] 0)
      | None \<Rightarrow> Inl TypeError)"

definition nblas_ref :: nblas where
  "nblas_ref =
     \<lparr>daxpy = ref_axpy, saxpy = ref_axpy, dscal = ref_scal, sscal = ref_scal,
      ddot = ref_dot, sdot = ref_dot, dnrm2 = ref_nrm2, snrm2 = ref_nrm2,
      idamax = ref_amax, isamax = ref_amax\<rparr>"

section \<open>Vectors for the examples\<close>

text \<open>
  \<open>vector_of t xs\<close> is the vector \<open>new Vector(new t(xs))\<close>, and \<open>empty_of t\<close> the vector
  \<open>new Vector(new t(0))\<close>: a zero-length vector backed by an empty buffer.
\<close>

definition vector_of :: "elem_type \<Rightarrow> number list \<Rightarrow> vector" where
  "vector_of t xs = \<lparr>type = t, length_v = length xs, data = Some (array_from t xs)\<rparr>"

definition empty_of :: "elem_type \<Rightarrow> vector" where
  "empty_of t = \<lparr>type = t, length_v = 0, data = Some (TypedArray t [])\<rparr>"

text \<open>
  The element type of a vector, in both places that hold it: its \<open>type\<close>, and the
  constructor of its typed array.
\<close>

definition element_types :: "vector \<Rightarrow> elem_type \<times> elem_type option" where
  "element_types v = (type v, map_option constructor (data v))"

text \<open>
  The re-materialization the spec describes, in its words: the operand's elements in
  a new typed array of the element type \<open>t\<close>. Nothing in the source does this; the
  definition is there to compare the source with.
\<close>

definition spec_rematerialize :: "elem_type \<Rightarrow> vector \<Rightarrow> vector" where
  "spec_rematerialize t v =
     \<lparr>type = t, length_v = length_v v,
      data = map_option (\<lambda>ta. array_from t (elements ta)) (data v)\<rparr>"

text \<open>
  A store with the vectors \<open>a = [1, 2]\<close> at address 0 and \<open>b = [3, 4]\<close> at address 1; the
  store after \<open>a.project(b)\<close>, which has scaled \<open>b\<close>; and the store after
  \<open>Vector.project(a, b)\<close>, whose result is at address 2.
\<close>

definition store0 :: store where
  "store0 =
     \<lparr>vectors =
        [\<lparr>type_of = Float64Array, length_of = 2, data_of = Some 0\<rparr>,
         \<lparr>type_of = Float64Array, length_of = 2, data_of = Some 1\<rparr>],
      arrays =
        [TypedArray Float64Array [Num 1, Num 2], TypedArray Float64Array [Num 3, Num 4]]\<rparr>"

definition store2 :: store where
  "store2 =
     store0\<lparr>arrays :=
       [TypedArray Float64Array [Num 1, Num 2],
        TypedArray Float64Array [Num (33 / 25), Num (44 / 25)]]\<rparr>"

definition store1 :: store where
  "store1 =
     \<lparr>vectors = vectors store0 @
        [\<lparr>type_of = Float64Array, length_of = 2, data_of = Some 2\<rparr>],
      arrays = arrays store0 @
        [TypedArray Float64Array [Num (33 / 25), Num (44 / 25)]]\<rparr>"

section \<open>Basic facts\<close>

lemma and_then_Inr_iff: "and_then m f = Inr y \<longleftrightarrow> (\<exists>x. m = Inr x \<and> f x = Inr y)"
  by (cases m) auto

lemma and_then_Inl_iff:
  "and_then m f = Inl e \<longleftrightarrow> m = Inl e \<or> (\<exists>x. m = Inr x \<and> f x = Inl e)"
  by (cases m) auto

text \<open>A property every iteration keeps is kept by the loop.\<close>

lemma for_each_invariant:
  assumes "\<And>i s s'. body i s = Inr s' \<Longrightarrow> P s \<Longrightarrow> P s'"
  shows "for_each is body s = Inr s' \<Longrightarrow> P s \<Longrightarrow> P s'"
proof (induction "is" arbitrary: s)
  case Nil
  then show ?case by simp
next
  case (Cons i "is")
  then show ?case using assms by (auto simp: and_then_Inr_iff)
qed

lemma for_each_append:
  "for_each (xs @ ys) body s = and_then (for_each xs body s) (for_each ys body)"
proof (induction xs arbitrary: s)
  case Nil
  then show ?case by simp
next
  case (Cons x xs)
  then show ?case by (cases "body x s") simp_all
qed

lemma for_each_Suc:
  "for_each [0..<Suc n] body s = and_then (for_each [0..<n] body s) (body n)"
proof -
  have "and_then m (for_each [] body) = m" for m
    by (cases m) simp_all
  then have "for_each [n] body = body n"
    by (intro ext) simp
  then show ?thesis by (simp add: for_each_append)
qed

lemma new_Vector_typed: "new_Vector (ATypedArray (array_from t xs)) = Inr (vector_of t xs)"
  by (simp add: new_Vector_def vector_of_def array_from_def)

lemma new_Vector_empty: "new_Vector (ATypedArray (new_array t 0)) = Inr (empty_of t)"
  by (simp add: new_Vector_def empty_of_def new_array_def)

lemmas eval_defs =
  vector_of_def empty_of_def array_from_def new_array_def index_def assign_def Let_def
  trunc_def wrap_signed_def wrap_unsigned_def upt_rec

text \<open>The loop of \<open>range\<close>, one iteration at a time.\<close>

lemma range_loop_stop:
  "\<not> js_lt i e \<Longrightarrow> range_loop v i j s st e b = Some (Inr v)"
  by (subst range_loop.simps) simp

lemma range_loop_throw:
  "js_lt i e \<Longrightarrow> data v = None \<Longrightarrow> range_loop v i j s st e b = Some (Inl TypeError)"
  by (subst range_loop.simps) (simp add: assign_def)


section \<open>add and subtract\<close>

text \<open>
  C1. The claim: for vectors \<open>a\<close> and \<open>b\<close> of the same length and of any element type,
  \<open>a.add(b)\<close> followed by \<open>subtract(b)\<close> gives back the contents of \<open>a\<close>. The loop
  \<open>subtract\<close> runs for an element type other than \<open>Float64Array\<close> and \<open>Float32Array\<close>
  adds: on the \<open>Int32Array\<close> vectors \<open>[1]\<close> and \<open>[2]\<close> the two calls leave \<open>[5]\<close>, not \<open>[1]\<close>,
  whatever the kernels are.
\<close>

theorem subtract_loop_adds:
  "and_then (add K (vector_of Int32Array [Num 1]) (vector_of Int32Array [Num 2]))
     (\<lambda>r. subtract K r (vector_of Int32Array [Num 2])) = Inr (vector_of Int32Array [Num 5])"
  by (simp add: add_def subtract_def eval_defs)

text \<open>
  The sibling path subtracts: on \<open>Float64Array\<close> vectors the kernel is called with
  \<open>alpha = -1\<close>, and with the reference kernels the same two calls give back \<open>[1]\<close>.
\<close>

lemma subtract_kernel_subtracts:
  "and_then (add nblas_ref (vector_of Float64Array [Num 1]) (vector_of Float64Array [Num 2]))
     (\<lambda>r. subtract nblas_ref r (vector_of Float64Array [Num 2])) =
   Inr (vector_of Float64Array [Num 1])"
  by (simp add: add_def subtract_def written_def nblas_ref_def ref_axpy_def read_def eval_defs)

text \<open>
  C8. \<open>add\<close> and \<open>subtract\<close> throw \<open>sizes do not match\<close> when the lengths of the two
  operands differ. When both lengths are zero they return the receiver as it is, and
  no kernel is called: the result is the same for every \<open>K\<close>.
\<close>

theorem add_subtract_shape:
  "(length_v a \<noteq> length_v b \<longrightarrow>
      add K a b = Inl (Error ''sizes do not match!'') \<and>
      subtract K a b = Inl (Error ''sizes do not match'')) \<and>
   (length_v a = 0 \<and> length_v b = 0 \<longrightarrow> add K a b = Inr a \<and> subtract K a b = Inr a)"
  by (simp add: add_def subtract_def)

theorem add_subtract_shape_witness:
  "add nblas_ref (vector_of Float64Array [Num 1, Num 2]) (vector_of Float64Array [Num 1]) =
     Inl (Error ''sizes do not match!'') \<and>
   subtract nblas_ref (vector_of Float64Array [Num 1, Num 2]) (vector_of Float64Array [Num 1]) =
     Inl (Error ''sizes do not match'') \<and>
   add nblas_ref (empty_of Float64Array) (empty_of Float32Array) = Inr (empty_of Float64Array) \<and>
   subtract nblas_ref (empty_of Float64Array) (empty_of Float32Array) =
     Inr (empty_of Float64Array)"
  using
    add_subtract_shape
      [of "vector_of Float64Array [Num 1, Num 2]" "vector_of Float64Array [Num 1]" nblas_ref]
    add_subtract_shape [of "empty_of Float64Array" "empty_of Float32Array" nblas_ref]
  by (simp add: vector_of_def empty_of_def)

section \<open>Operands of different element types\<close>

lemma constructor_set_index: "constructor (set_index ta i v) = constructor ta"
  by (cases ta) simp

lemma written_types: "written this r = Inr this' \<Longrightarrow> element_types this' = element_types this"
  by (cases "(data this, undefined :: number list)" rule: overwrite.cases)
     (auto simp: written_def and_then_Inr_iff element_types_def)

text \<open>The loops of \<open>add\<close> and \<open>subtract\<close> store into the typed array that is there.\<close>

lemma update_loop_types:
  assumes "for_each is
     (\<lambda>i this. and_then (index (data this) i) (\<lambda>y. and_then (g i)
        (\<lambda>x. and_then (assign (data this) i (f y x)) (\<lambda>d. Inr (this\<lparr>data := d\<rparr>))))) a = Inr r"
  shows "element_types r = element_types a"
proof (rule for_each_invariant [where P = "\<lambda>v. element_types v = element_types a", OF _ assms])
  fix i s s'
  assume "and_then (index (data s) i) (\<lambda>y. and_then (g i)
        (\<lambda>x. and_then (assign (data s) i (f y x)) (\<lambda>d. Inr (s\<lparr>data := d\<rparr>)))) = Inr s'"
    and "element_types s = element_types a"
  then show "element_types s' = element_types a"
    by (auto simp: and_then_Inr_iff assign_def element_types_def constructor_set_index
        split: option.splits)
qed simp

lemma add_types: "add K a b = Inr r \<Longrightarrow> element_types r = element_types a"
  unfolding add_def
  by (auto split: if_splits dest: written_types update_loop_types)

lemma subtract_types: "subtract K a b = Inr r \<Longrightarrow> element_types r = element_types a"
  unfolding subtract_def
  by (auto split: if_splits dest: written_types update_loop_types)

lemma copy_loop_constructor:
  assumes "for_each is (\<lambda>i r. and_then (g i) (\<lambda>v. Inr (set_index r (h i) (ToNumber v)))) r = Inr r'"
  shows "constructor r' = constructor r"
  by (rule for_each_invariant [where P = "\<lambda>x. constructor x = constructor r", OF _ assms])
     (auto simp: and_then_Inr_iff constructor_set_index)

lemma combine_buffer_constructor:
  "combine_buffer a b = Inr r \<Longrightarrow> constructor r = type a"
  unfolding combine_buffer_def Let_def
  by (auto simp: and_then_Inr_iff new_array_def dest!: copy_loop_constructor)

lemma combine_types: "combine a b = Inr r \<Longrightarrow> element_types r = (type a, Some (type a))"
  by (auto simp: combine_def and_then_Inr_iff element_types_def dest: combine_buffer_constructor)

text \<open>
  A copying loop of \<open>combine\<close>: \<open>n\<close> elements of \<open>xs\<close>, converted as they are stored from
  the index \<open>off\<close> on.
\<close>

lemma copy_loop_elements:
  "for_each [0..<n]
     (\<lambda>i r. and_then (index (Some (TypedArray t xs)) i)
        (\<lambda>v. Inr (set_index r (off + i) (ToNumber v)))) (TypedArray t' zs) =
   Inr (TypedArray t'
     (map (\<lambda>k. if off \<le> k \<and> k < off + n
                then convert t' (ToNumber (get_index (TypedArray t xs) (k - off)))
                else zs ! k)
        [0..<length zs]))"
proof (induction n)
  case 0
  show ?case by (auto intro!: nth_equalityI)
next
  case (Suc n)
  show ?case
    unfolding for_each_Suc Suc.IH
    by (auto simp: index_def nth_list_update less_Suc_eq intro!: nth_equalityI)
qed

lemma combine_elements:
  assumes "data a = Some (TypedArray ta xs)" and "length_v a = length xs"
    and "data b = Some (TypedArray tb ys)" and "length_v b = length ys"
  shows "combine a b =
     Inr (a\<lparr>data := Some (array_from (type a) (xs @ ys)), length_v := length xs + length ys\<rparr>)"
proof -
  have "combine_buffer a b = Inr (array_from (type a) (xs @ ys))"
    unfolding combine_buffer_def Let_def new_array_def assms
      copy_loop_elements [where off = 0, simplified] and_then.simps copy_loop_elements
    by (auto simp: array_from_def nth_append intro!: nth_equalityI)
  then show ?thesis by (simp add: combine_def assms)
qed

text \<open>
  C2, as the claim states it: the right-hand operand of a binary operation is
  re-materialized into the element type of the left-hand one before the operation
  runs. It is not: \<open>equals\<close> on the \<open>Int8Array\<close> vector \<open>[1]\<close> and the \<open>Int16Array\<close> vector
  \<open>[257]\<close> compares \<open>1\<close> with \<open>257\<close> and returns false, where the re-materialized operand
  would be the \<open>Int8Array\<close> vector \<open>[1]\<close>, and equal.
\<close>

theorem equals_not_rematerialized:
  "equals (vector_of Int8Array [Num 1]) (vector_of Int16Array [Num 257]) = Inr False \<and>
   equals (vector_of Int8Array [Num 1])
     (spec_rematerialize (type (vector_of Int8Array [Num 1])) (vector_of Int16Array [Num 257])) =
     Inr True"
  by (simp add: equals_def equals_loop.simps js_eq_def spec_rematerialize_def eval_defs)

text \<open>
  C2, amended. No operand is re-materialized. The vector \<open>add\<close>, \<open>subtract\<close> and
  \<open>combine\<close> return is the receiver, and its element type is the receiver's: \<open>add\<close> and
  \<open>subtract\<close> leave the \<open>type\<close> and the typed array's constructor as they were, and the
  array \<open>combine\<close> allocates is of the receiver's \<open>type\<close>. \<open>combine\<close> reads the elements of
  both operands as they are stored and converts each to the receiver's element type
  as it stores it.
\<close>

theorem result_type_is_receivers:
  "(add K a b = Inr r \<longrightarrow> element_types r = element_types a) \<and>
   (subtract K a b = Inr r \<longrightarrow> element_types r = element_types a) \<and>
   (combine a b = Inr r \<longrightarrow> element_types r = (type a, Some (type a))) \<and>
   (data a = Some (TypedArray ta xs) \<and> length_v a = length xs \<and>
    data b = Some (TypedArray tb ys) \<and> length_v b = length ys \<longrightarrow>
      combine a b =
        Inr (a\<lparr>data := Some (array_from (type a) (xs @ ys)),
                length_v := length xs + length ys\<rparr>))"
  by (auto dest: add_types subtract_types combine_types simp: combine_elements)

lemma add_mixed:
  "add K (vector_of Int8Array [Num 1]) (vector_of Int16Array [Num 257]) =
     Inr (vector_of Int8Array [Num 2])"
  by (simp add: add_def eval_defs)

lemma subtract_mixed:
  "subtract K (vector_of Int8Array [Num 1]) (vector_of Int16Array [Num 257]) =
     Inr (vector_of Int8Array [Num 2])"
  by (simp add: subtract_def eval_defs)

lemma combine_mixed:
  "combine (vector_of Int8Array [Num 1]) (vector_of Int16Array [Num 257]) =
     Inr (vector_of Int8Array [Num 1, Num 1])"
  by (simp add: combine_def combine_buffer_def eval_defs eval_nat_numeral)

theorem result_type_is_receivers_witness:
  "element_types (vector_of Int8Array [Num 2]) = element_types (vector_of Int8Array [Num 1]) \<and>
   element_types (vector_of Int8Array [Num 1, Num 1]) = (Int8Array, Some Int8Array) \<and>
   combine (vector_of Int8Array [Num 1]) (vector_of Int16Array [Num 257]) =
     Inr (vector_of Int8Array [Num 1, Num 1])"
  using
    result_type_is_receivers
      [of nblas_ref "vector_of Int8Array [Num 1]" "vector_of Int16Array [Num 257]"
        "vector_of Int8Array [Num 2]" Int8Array "[Num 1]" Int16Array "[Num 257]"]
    result_type_is_receivers
      [of nblas_ref "vector_of Int8Array [Num 1]" "vector_of Int16Array [Num 257]"
        "vector_of Int8Array [Num 1, Num 1]" Int8Array "[Num 1]" Int16Array "[Num 257]"]
    add_mixed [of nblas_ref] subtract_mixed [of nblas_ref] combine_mixed
  by (simp add: element_types_def eval_defs)

section \<open>equals\<close>

lemma strict_equals_refl: "strict_equals x x \<longleftrightarrow> x \<noteq> Some NaN"
  by (cases x) (auto simp: js_eq_def)

lemma get_index_not_NaN: "NaN \<notin> set (elements ta) \<Longrightarrow> get_index ta j \<noteq> Some NaN"
  by (cases ta) (auto dest: nth_mem)

text \<open>
  The loop of \<open>equals\<close> on two typed arrays returns the first index from \<open>i\<close> on at
  which the elements differ, or \<open>l\<close> when there is none.
\<close>

lemma equals_loop_returns:
  "i \<le> l \<Longrightarrow>
   \<exists>k. equals_loop (Some ta) (Some tb) i l = Inr k \<and> i \<le> k \<and> k \<le> l \<and>
     (\<forall>j. i \<le> j \<and> j < k \<longrightarrow> strict_equals (get_index ta j) (get_index tb j)) \<and>
     (k < l \<longrightarrow> \<not> strict_equals (get_index ta k) (get_index tb k))"
proof (induction "l - i" arbitrary: i)
  case 0
  then have "i = l" by simp
  then show ?case by (subst equals_loop.simps) auto
next
  case (Suc n)
  then have less: "i < l" and n: "n = l - Suc i" and le: "Suc i \<le> l" by simp_all
  show ?case
  proof (cases "strict_equals (get_index ta i) (get_index tb i)")
    case False
    with less show ?thesis
      by (subst equals_loop.simps) (auto simp: index_def)
  next
    case True
    from Suc.hyps(1) [OF n le] obtain k where
      k: "equals_loop (Some ta) (Some tb) (Suc i) l = Inr k" "Suc i \<le> k" "k \<le> l"
        "\<forall>j. Suc i \<le> j \<and> j < k \<longrightarrow> strict_equals (get_index ta j) (get_index tb j)"
        "k < l \<longrightarrow> \<not> strict_equals (get_index ta k) (get_index tb k)"
      by blast
    have "equals_loop (Some ta) (Some tb) i l = Inr k"
      using less True k(1) by (subst equals_loop.simps) (simp add: index_def)
    moreover have "\<forall>j. i \<le> j \<and> j < k \<longrightarrow> strict_equals (get_index ta j) (get_index tb j)"
      using True k(4) by (metis Suc_leI le_neq_implies_less)
    ultimately show ?thesis using k(2,3,5) by auto
  qed
qed

lemma equals_pairwise:
  assumes "length_v a = length_v b" and "data a = Some ta" and "data b = Some tb"
  shows "equals a b = Inr (\<forall>j<length_v a. strict_equals (get_index ta j) (get_index tb j))"
proof -
  obtain k where
    k: "equals_loop (Some ta) (Some tb) 0 (length_v a) = Inr k" "k \<le> length_v a"
      "\<forall>j. 0 \<le> j \<and> j < k \<longrightarrow> strict_equals (get_index ta j) (get_index tb j)"
      "k < length_v a \<longrightarrow> \<not> strict_equals (get_index ta k) (get_index tb k)"
    using equals_loop_returns [of 0 "length_v a" ta tb] by auto
  have "k = length_v a \<longleftrightarrow> (\<forall>j<length_v a. strict_equals (get_index ta j) (get_index tb j))"
    using k(2,3,4) by (metis le_neq_implies_less less_eq_nat.simps(1))
  then show ?thesis using assms k(1) by (simp add: equals_def)
qed

lemma equals_empty: "length_v a = 0 \<Longrightarrow> equals a a = Inr True"
  by (simp add: equals_def equals_loop.simps)

text \<open>
  C3, as the claim states it: \<open>equals(v, v)\<close> is true for every vector \<open>v\<close>. It is false
  for the vector \<open>[NaN]\<close>: \<open>NaN === NaN\<close> is false.
\<close>

theorem equals_not_reflexive:
  "equals (vector_of Float64Array [NaN]) (vector_of Float64Array [NaN]) = Inr False"
  by (simp add: equals_def equals_loop.simps js_eq_def eval_defs)

text \<open>
  C3, amended. \<open>equals\<close> returns false when the lengths differ. When they agree, it
  returns true exactly when \<open>a[j] === b[j]\<close> for every index \<open>j\<close> below the length: the
  comparison is exact, with no tolerance. So \<open>equals(v, v)\<close> is true for every vector
  none of whose elements is \<open>NaN\<close> (and for every zero-length vector).
\<close>

theorem equals_exact:
  "(length_v a \<noteq> length_v b \<longrightarrow> equals a b = Inr False) \<and>
   (length_v a = length_v b \<and> data a = Some ta \<and> data b = Some tb \<longrightarrow>
      equals a b = Inr (\<forall>j<length_v a. strict_equals (get_index ta j) (get_index tb j))) \<and>
   (length_v a = 0 \<or> data a = Some ta \<and> NaN \<notin> set (elements ta) \<longrightarrow> equals a a = Inr True)"
proof (intro conjI impI)
  assume "length_v a \<noteq> length_v b"
  then show "equals a b = Inr False" by (simp add: equals_def)
next
  assume "length_v a = length_v b \<and> data a = Some ta \<and> data b = Some tb"
  then show "equals a b = Inr (\<forall>j<length_v a. strict_equals (get_index ta j) (get_index tb j))"
    by (simp add: equals_pairwise)
next
  assume "length_v a = 0 \<or> data a = Some ta \<and> NaN \<notin> set (elements ta)"
  then show "equals a a = Inr True"
  proof
    assume "length_v a = 0"
    then show ?thesis by (rule equals_empty)
  next
    assume h: "data a = Some ta \<and> NaN \<notin> set (elements ta)"
    then have "equals a a = Inr (\<forall>j<length_v a. strict_equals (get_index ta j) (get_index ta j))"
      by (simp add: equals_pairwise)
    with h show ?thesis by (simp add: strict_equals_refl get_index_not_NaN)
  qed
qed

theorem equals_exact_witness:
  "equals (vector_of Float64Array [Num 1, Num 2]) (vector_of Float64Array [Num 1]) = Inr False \<and>
   equals (vector_of Float64Array [Num 1, Num 2]) (vector_of Float64Array [Num 1, Num 3]) =
     Inr False \<and>
   equals (vector_of Float64Array [Num 1, Num 2]) (vector_of Float64Array [Num 1, Num 2]) =
     Inr True"
  using
    equals_exact
      [of "vector_of Float64Array [Num 1, Num 2]" "vector_of Float64Array [Num 1]"
        "array_from Float64Array [Num 1, Num 2]" "array_from Float64Array [Num 1]"]
    equals_exact
      [of "vector_of Float64Array [Num 1, Num 2]" "vector_of Float64Array [Num 1, Num 3]"
        "array_from Float64Array [Num 1, Num 2]" "array_from Float64Array [Num 1, Num 3]"]
  by (simp add: equals_def equals_loop.simps js_eq_def eval_defs)

section \<open>project\<close>

lemma combine_at_shape:
  assumes "combine_at s this v = Inr s'"
  shows "\<exists>r ob. arrays s' = arrays s @ [r] \<and> vectors s' = (vectors s)[this := ob] \<and>
           data_of ob = Some (length (arrays s))"
  using assms by (auto simp: combine_at_def and_then_Inr_iff)

lemma new_Vector_at_shape:
  assumes "new_Vector_at s b = Inr (s', c)"
  shows "c = length (vectors s) \<and>
         (\<exists>r ob. arrays s' = arrays s @ [r] \<and> vectors s' = vectors s @ [ob] \<and>
            data_of ob = Some (length (arrays s)))"
  using assms
  by (auto simp: new_Vector_at_def Let_def and_then_Inr_iff dest!: combine_at_shape)

lemma write_back_shape:
  "vectors (write_back s this v) = vectors s \<and>
   (arrays (write_back s this v) = arrays s \<or>
    (\<exists>p ta. Option.bind (lookup (vectors s) this) data_of = Some p \<and>
       arrays (write_back s this v) = (arrays s)[p := ta]))"
  by (cases "Option.bind (lookup (vectors s) this) data_of"; cases "data v")
     (auto simp: write_back_def)

lemma scale_at_shape:
  assumes "scale_at K s this q = Inr s'"
  shows "vectors s' = vectors s \<and>
         (arrays s' = arrays s \<or>
          (\<exists>p ta. Option.bind (lookup (vectors s) this) data_of = Some p \<and>
             arrays s' = (arrays s)[p := ta]))"
  using assms write_back_shape [of s this]
  by (auto simp: scale_at_def and_then_Inr_iff)

text \<open>
  The method \<open>project\<close> returns its argument, and writes nothing but the typed array
  of its argument.
\<close>

lemma project_at_shape:
  assumes "project_at K s this v = Inr (s', r)"
  shows "r = v \<and> vectors s' = vectors s \<and>
         (arrays s' = arrays s \<or>
          (\<exists>p ta. Option.bind (lookup (vectors s) v) data_of = Some p \<and>
             arrays s' = (arrays s)[p := ta]))"
  using assms
  by (auto simp: project_at_def and_then_Inr_iff dest!: scale_at_shape)

lemmas store_defs =
  Vector_project_at_def new_Vector_at_def combine_at_def view_def lookup_def
  combine_buffer_def project_at_def dot_at_def scale_at_def write_back_def dot_def scale_def
  written_def nblas_ref_def ref_dot_def ref_scal_def read_def store0_def store1_def

lemma Vector_project_example: "Vector_project_at nblas_ref store0 0 1 = Inr (store1, 2)"
  by (simp add: store_defs eval_defs eval_nat_numeral)

text \<open>The same call on the values alone: the result, without its address.\<close>

lemma Vector_project_value:
  "Vector_project nblas_ref (vector_of Float64Array [Num 1, Num 2])
     (vector_of Float64Array [Num 3, Num 4]) =
   Inr (vector_of Float64Array [Num (33 / 25), Num (44 / 25)])"
  by (simp add: Vector_project_def project_def new_Vector_def combine_def store_defs eval_defs
      eval_nat_numeral)

text \<open>
  C4, as the claim states it: \<open>Vector.project(a, b)\<close> mutates \<open>b\<close> and returns \<open>b\<close>
  itself. With \<open>a = [1, 2]\<close> at address 0 and \<open>b = [3, 4]\<close> at address 1 it returns the
  address 2, of a new vector \<open>[33/25, 44/25]\<close>, and \<open>b\<close> is still \<open>[3, 4]\<close>.
\<close>

theorem Vector_project_not_aliased:
  "Vector_project_at nblas_ref store0 0 1 = Inr (store1, 2) \<and>
   view store1 1 = view store0 1 \<and>
   view store1 1 = Inr (vector_of Float64Array [Num 3, Num 4]) \<and>
   view store1 2 = Inr (vector_of Float64Array [Num (33 / 25), Num (44 / 25)])"
  by (simp add: store_defs eval_defs eval_nat_numeral)

text \<open>
  C4, amended. \<open>Vector.project(a, b)\<close> returns a new \<open>Vector\<close>, not \<open>b\<close>: its address
  and the address of its typed array are new, and every \<open>Vector\<close> and every typed array
  that was in the store before the call, \<open>b\<close> and its buffer among them, is as it was.
  It is the method \<open>a.project(b)\<close> that returns \<open>b\<close> itself, having written nothing
  but the typed array of \<open>b\<close>.
\<close>

theorem Vector_project_fresh:
  "(Vector_project_at K s a b = Inr (s', r) \<and> b < length (vectors s) \<longrightarrow>
      r = length (vectors s) \<and> r \<noteq> b \<and>
      take (length (vectors s)) (vectors s') = vectors s \<and>
      take (length (arrays s)) (arrays s') = arrays s \<and>
      Option.bind (lookup (vectors s') r) data_of = Some (length (arrays s))) \<and>
   (project_at K s a b = Inr (s', r) \<longrightarrow>
      r = b \<and> vectors s' = vectors s \<and>
      (arrays s' = arrays s \<or>
       (\<exists>p ta. Option.bind (lookup (vectors s) b) data_of = Some p \<and>
          arrays s' = (arrays s)[p := ta])))"
proof (intro conjI impI)
  assume h: "Vector_project_at K s a b = Inr (s', r) \<and> b < length (vectors s)"
  then obtain s1 c where c: "new_Vector_at s b = Inr (s1, c)"
    and p: "project_at K s1 a c = Inr (s', r)"
    by (auto simp: Vector_project_at_def and_then_Inr_iff)
  from new_Vector_at_shape [OF c] obtain ta ob where
    s1: "c = length (vectors s)" "arrays s1 = arrays s @ [ta]" "vectors s1 = vectors s @ [ob]"
      "data_of ob = Some (length (arrays s))"
    by blast
  from project_at_shape [OF p] have
    s': "r = c" "vectors s' = vectors s1"
      "arrays s' = arrays s1 \<or>
       (\<exists>p ta. Option.bind (lookup (vectors s1) c) data_of = Some p \<and>
          arrays s' = (arrays s1)[p := ta])"
    by blast+
  have look: "Option.bind (lookup (vectors s1) c) data_of = Some (length (arrays s))"
    using s1 by (simp add: lookup_def)
  show "r = length (vectors s)" using s1 s' by simp
  show "r \<noteq> b" using s1 s' h by simp
  show "take (length (vectors s)) (vectors s') = vectors s" using s1 s' by simp
  show "take (length (arrays s)) (arrays s') = arrays s" using s1 s'(3) look by auto
  show "Option.bind (lookup (vectors s') r) data_of = Some (length (arrays s))"
    using s' look by simp
next
  assume "project_at K s a b = Inr (s', r)"
  from project_at_shape [OF this]
  show "r = b" and "vectors s' = vectors s"
    and "arrays s' = arrays s \<or>
       (\<exists>p ta. Option.bind (lookup (vectors s) b) data_of = Some p \<and>
          arrays s' = (arrays s)[p := ta])"
    by blast+
qed

lemma project_example: "project_at nblas_ref store0 0 1 = Inr (store2, 1)"
  by (simp add: store_defs store2_def eval_defs eval_nat_numeral)

theorem Vector_project_fresh_witness:
  "(2 :: nat) = length (vectors store0) \<and>
   take (length (vectors store0)) (vectors store1) = vectors store0 \<and>
   take (length (arrays store0)) (arrays store1) = arrays store0 \<and>
   Option.bind (lookup (vectors store1) 2) data_of = Some (length (arrays store0)) \<and>
   vectors store2 = vectors store0 \<and>
   arrays store2 = (arrays store0)[1 := TypedArray Float64Array [Num (33 / 25), Num (44 / 25)]]"
  using Vector_project_fresh [of nblas_ref store0 0 1 store1 2]
    Vector_project_fresh [of nblas_ref store0 0 1 store2 1]
    Vector_project_example project_example
  by (simp add: store0_def store2_def)

section \<open>angle\<close>

text \<open>
  C9. \<open>angle(other)\<close> is \<open>acos(dot(other) / magnitude() * other.magnitude())\<close>, read
  from left to right: the dot product is divided by the magnitude of the receiver and
  the quotient is multiplied by the magnitude of the argument.
\<close>

theorem angle_literal:
  assumes "dot K a b = Inr d" and "magnitude K a = Inr m" and "magnitude K b = Inr n"
  shows "angle K a b = Inr (Math_acos (js_mul (js_div d m) n))"
  using assms by (simp add: angle_def)

lemma dot_two: "dot K (vector_of Int32Array [Num 2]) (vector_of Int32Array [Num 2]) = Inr (Num 4)"
  by (simp add: dot_def eval_defs)

lemma magnitude_two: "magnitude K (vector_of Int32Array [Num 2]) = Inr (Num 2)"
  by (simp add: magnitude_def eval_defs)

text \<open>
  On the vector \<open>[2]\<close> against itself the result is \<open>acos(4 / 2 * 2) = acos(4)\<close>, which is
  \<open>NaN\<close>; dividing by the product of the magnitudes would give \<open>acos(1) = 0\<close>.
\<close>

theorem angle_literal_witness:
  "angle nblas_ref (vector_of Int32Array [Num 2]) (vector_of Int32Array [Num 2]) = Inr NaN \<and>
   Math_acos (js_div (Num 4) (js_mul (Num 2) (Num 2))) = Num 0"
  using angle_literal [OF dot_two magnitude_two magnitude_two, of nblas_ref]
  by simp

section \<open>min and max\<close>

text \<open>
  C10. On a zero-length vector backed by an empty buffer, \<open>min()\<close> returns \<open>Infinity\<close>,
  and \<open>max()\<close> returns \<open>-Infinity\<close> on the path that does not call a kernel (the element
  type is neither \<open>Float64Array\<close> nor \<open>Float32Array\<close>). Neither throws.
\<close>

theorem min_max_empty:
  assumes "data v = Some (TypedArray t [])" and "length_v v = 0"
  shows "min_v v = Inr Infinity \<and>
         (type v \<noteq> Float64Array \<and> type v \<noteq> Float32Array \<longrightarrow>
            max_v K v = Inr (Some NegInfinity))"
  using assms by (simp add: min_v_def max_v_def)

theorem min_max_empty_witness:
  "min_v (empty_of Int32Array) = Inr Infinity \<and>
   max_v nblas_ref (empty_of Int32Array) = Inr (Some NegInfinity)"
  using min_max_empty [of "empty_of Int32Array" Int32Array nblas_ref]
  by (simp add: empty_of_def)

text \<open>
  The buffer matters for \<open>min\<close>: the vector \<open>new Vector()\<close>, which \<open>zeros(0)\<close> returns, has
  no buffer, and \<open>min()\<close> throws on it.
\<close>

lemma min_without_buffer: "new_Vector NoArgument = Inr v \<Longrightarrow> min_v v = Inl TypeError"
  by (auto simp: new_Vector_def min_v_def)

section \<open>range\<close>




lemma allocate_error: "allocate t c = Inl e \<Longrightarrow> e = RangeError"
  by (cases c) (auto split: if_splits)

lemma zeros_error: "zeros c t = Inl e \<Longrightarrow> e = Error ''invalid size'' \<or> e = RangeError"
  by (auto simp: zeros_def new_Vector_def and_then_Inl_iff Let_def
      split: if_splits dest: allocate_error)

text \<open>The loop of \<open>range\<close> throws no \<open>Error\<close>: all it can throw is the \<open>TypeError\<close>.\<close>

lemma range_loop_error:
  assumes "range_loop v i j s st e b = Some y"
  shows "y \<noteq> Inl (Error msg)"
proof (rule range_loop.raw_induct
    [where P = "\<lambda>v i j s st e b y. y \<noteq> Inl (Error msg)", OF _ assms])
  fix range_loop ::
    "vector \<Rightarrow> number \<Rightarrow> nat \<Rightarrow> number \<Rightarrow> number \<Rightarrow> number \<Rightarrow> bool \<Rightarrow> (error + vector) option"
    and v i j s st e b y
  assume IH: "\<And>v i j s st e b y. range_loop v i j s st e b = Some y \<Longrightarrow> y \<noteq> Inl (Error msg)"
    and step: "(if js_lt i e then
        case assign (data v) j (if b then js_add (js_sub e i) s else i) of
          Inl e \<Rightarrow> Some (Inl e)
        | Inr d \<Rightarrow> range_loop (v\<lparr>data := d\<rparr>) (js_add i st) (Suc j) s st e b
      else Some (Inr v)) = Some y"
  show "y \<noteq> Inl (Error msg)"
  proof (cases "js_lt i e")
    case False
    with step show ?thesis by auto
  next
    case True
    show ?thesis
    proof (cases "data v")
      case None
      with True step show ?thesis by (auto simp: assign_def)
    next
      case (Some ta)
      with True step IH show ?thesis by (auto simp: assign_def)
    qed
  qed
qed

text \<open>After the swap, \<open>end - start\<close> is the absolute value of the difference given.\<close>

lemma swapped_difference:
  "js_sub (if js_lt (js_sub e s) (Num 0) then s else e)
     (if js_lt (js_sub e s) (Num 0) then e else s) =
   Math_abs (js_sub e s)"
  by (cases e; cases s) (auto simp: js_sub_def)

lemma range_from_invalid:
  "range_from start step end' t = Some (Inl (Error ''invalid range'')) \<longleftrightarrow>
   js_gt step (Math_abs (js_sub end' start))"
proof -
  have "range_from start step end' t =
    (if js_gt step (Math_abs (js_sub end' start)) then Some (Inl (Error ''invalid range''))
     else case zeros (Math_ceil (js_div (Math_abs (js_sub end' start)) step)) (Some t) of
            Inl e \<Rightarrow> Some (Inl e)
          | Inr vector \<Rightarrow>
              range_loop vector (if js_lt (js_sub end' start) (Num 0) then end' else start) 0
                (if js_lt (js_sub end' start) (Num 0) then end' else start) step
                (if js_lt (js_sub end' start) (Num 0) then start else end')
                (js_lt (js_sub end' start) (Num 0)))"
    by (simp add: range_from_def Let_def swapped_difference)
  then show ?thesis
    by (auto split: sum.splits dest: zeros_error range_loop_error)
qed

lemma ceiling_neg_half: "\<lceil>- (1 / 2 :: real)\<rceil> = 0"
  by (simp add: ceiling_eq_iff)

text \<open>
  C7, as the claim states it: \<open>range\<close> throws \<open>invalid range\<close> whenever
  \<open>|step| > |end - start|\<close>. For \<open>range(0, -10, 5)\<close> that holds, \<open>10 > 5\<close>, and the call
  throws a \<open>TypeError\<close> instead: the test is \<open>step > end - start\<close>, which \<open>-10 > 5\<close> fails,
  \<open>zeros(-0)\<close> returns a vector with no buffer, and the loop stores into it.
\<close>

theorem range_negative_step:
  "js_gt (Math_abs (Num (- 10))) (Math_abs (js_sub (Num 5) (Num 0))) \<and>
   range_v [Num 0, Num (- 10), Num 5] None = Some (Inl TypeError)"
  by (simp add: range_v_def range_from_def zeros_def new_Vector_def js_sub_def js_gt_def js_eq_def
      range_loop_stop range_loop_throw eval_defs ceiling_neg_half)

text \<open>
  C7, amended. \<open>range\<close> throws \<open>invalid range\<close> exactly when the number of arguments
  before the optional element type is neither 2 nor 3, or \<open>step > |end - start|\<close>, where
  \<open>step\<close> is 1 when two arguments are given. The step is compared as it is, with its
  sign.
\<close>

theorem range_invalid_iff:
  "range_v args t = Some (Inl (Error ''invalid range'')) \<longleftrightarrow>
     (length args \<noteq> 2 \<and> length args \<noteq> 3) \<or>
     (\<exists>start end'. args = [start, end'] \<and> js_gt (Num 1) (Math_abs (js_sub end' start))) \<or>
     (\<exists>start step end'. args = [start, step, end'] \<and>
        js_gt step (Math_abs (js_sub end' start)))"
proof (cases args)
  case Nil
  then show ?thesis by (simp add: range_v_def)
next
  case (Cons a as)
  note outer = Cons
  show ?thesis
  proof (cases as)
    case Nil
    with outer show ?thesis by (simp add: range_v_def)
  next
    case (Cons b bs)
    note mid = Cons
    show ?thesis
    proof (cases bs)
      case Nil
      with outer mid show ?thesis by (simp add: range_v_def range_from_invalid Let_def)
    next
      case (Cons c cs)
      with outer mid show ?thesis
        by (cases cs) (simp_all add: range_v_def range_from_invalid Let_def)
    qed
  qed
qed

theorem range_invalid_iff_witness:
  "range_v [Num 0, Num 3, Num 2] None = Some (Inl (Error ''invalid range'')) \<and>
   range_v [Num 0, Num 1, Num 5, Num 7] None = Some (Inl (Error ''invalid range'')) \<and>
   range_v [Num 0, Num (- 10), Num 5] None \<noteq> Some (Inl (Error ''invalid range''))"
  using range_invalid_iff [of "[Num 0, Num 3, Num 2]" None]
    range_invalid_iff [of "[Num 0, Num 1, Num 5, Num 7]" None]
    range_invalid_iff [of "[Num 0, Num (- 10), Num 5]" None]
  by (simp add: js_gt_def js_sub_def)

end
